theory Spec2Isabelle
  imports Main "HOL-Library.Sublist"
begin

section \<open>Python strings\<close>

text \<open>
  A Python \<open>str\<close> is a sequence of Unicode code points, so a string is a list of
  natural numbers, one per code point. ASCII literals of the script are written with
  \<open>ascii\<close>.
\<close>

type_synonym pystr = "nat list"

definition ascii :: "string \<Rightarrow> pystr" where
  "ascii s = map of_char s"

text \<open>
  \<open>str.isspace\<close> on one code point: the code points for which CPython's
  \<open>Py_UNICODE_ISSPACE\<close> holds. These are the characters that \<open>str.strip()\<close>
  without an argument removes.
\<close>

definition isspace :: "nat \<Rightarrow> bool" where
  "isspace c =
     ((9 \<le> c \<and> c \<le> 13) \<or> (28 \<le> c \<and> c \<le> 32) \<or> c = 133 \<or> c = 160 \<or> c = 5760 \<or>
      (8192 \<le> c \<and> c \<le> 8202) \<or> c = 8232 \<or> c = 8233 \<or> c = 8239 \<or> c = 8287 \<or>
      c = 12288)"

definition lstrip :: "pystr \<Rightarrow> pystr" where
  "lstrip s = dropWhile isspace s"

definition rstrip :: "pystr \<Rightarrow> pystr" where
  "rstrip s = rev (dropWhile isspace (rev s))"

definition strip :: "pystr \<Rightarrow> pystr" where
  "strip s = rstrip (lstrip s)"

text \<open>\<open>sep.join(parts)\<close>: the parts in order, \<open>sep\<close> between each two neighbours.\<close>

fun join :: "pystr \<Rightarrow> pystr list \<Rightarrow> pystr" where
  "join sep [] = []"
| "join sep [x] = x"
| "join sep (x # y # ys) = x @ sep @ join sep (y # ys)"

text \<open>\<open>sub in s\<close> on strings: \<open>sub\<close> occurs in \<open>s\<close> as a contiguous run.\<close>

fun contains :: "pystr \<Rightarrow> pystr \<Rightarrow> bool" where
  "contains [] sub = (sub = [])"
| "contains (c # s) sub = (prefix sub (c # s) \<or> contains s sub)"

text \<open>A string has no leading and no trailing whitespace.\<close>

definition no_outer_whitespace :: "pystr \<Rightarrow> bool" where
  "no_outer_whitespace s =
     (case s of [] \<Rightarrow> True | c # cs \<Rightarrow> \<not> isspace c \<and> \<not> isspace (last s))"

section \<open>Exceptions\<close>

text \<open>
  The script distinguishes three classes of exception by its two \<open>except\<close> clauses:
  \<open>ImportError\<close> (with its subclasses), any other subclass of \<open>Exception\<close>, and the
  exceptions that derive from \<open>BaseException\<close> only (\<open>KeyboardInterrupt\<close>,
  \<open>SystemExit\<close>, \<open>GeneratorExit\<close>), which neither clause catches. Each carries the
  text that \<open>str(e)\<close> gives.
\<close>

datatype py_exception =
    ImportError pystr
  | Exception pystr
  | BaseException pystr

section \<open>The external runtime\<close>

text \<open>
  \<open>faster_whisper\<close> is not part of the script. It is a parameter of the model: what
  the import does, what the constructor \<open>WhisperModel(...)\<close> does with its arguments
  and what \<open>model.transcribe(...)\<close> does with its arguments.
\<close>

text \<open>A segment exposes its text (\<open>segment.text\<close>); the field is named \<open>seg_text\<close> here.\<close>

record segment =
  seg_text :: pystr

text \<open>
  \<open>model.transcribe\<close> returns a generator. Each step of the \<open>for\<close> loop asks it for
  the next segment: it yields one, or is exhausted, or raises.
\<close>

datatype segment_stream =
    Stream_end
  | Stream_raise py_exception
  | Stream_yield segment segment_stream

record model_args =
  model_size_or_path :: pystr
  device :: pystr
  compute_type :: pystr

record transcribe_args =
  audio :: pystr
  language :: pystr
  beam_size :: int
  best_of :: int
  vad_filter :: bool
  vad_parameters :: "(pystr \<times> int) list"

record runtime =
  import_WhisperModel :: "py_exception option"
  WhisperModel :: "model_args \<Rightarrow> py_exception option"
  transcribe :: "model_args \<Rightarrow> transcribe_args \<Rightarrow> py_exception + segment_stream"

text \<open>The calls the script makes into the runtime, in order.\<close>

datatype runtime_call =
    is_import: Call_import
  | is_WhisperModel: Call_WhisperModel model_args
  | is_transcribe: Call_transcribe transcribe_args

section \<open>Process state\<close>

record process =
  stdout :: pystr
  stderr :: pystr
  calls :: "runtime_call list"

definition start :: process where
  "start = \<lparr>stdout = [], stderr = [], calls = []\<rparr>"

text \<open>\<open>print(s)\<close> and \<open>print(s, file=sys.stderr)\<close> write \<open>s\<close> and a newline.\<close>

definition print_stdout :: "pystr \<Rightarrow> process \<Rightarrow> process" where
  "print_stdout s p = p\<lparr>stdout := stdout p @ s @ [10]\<rparr>"

definition print_stderr :: "pystr \<Rightarrow> process \<Rightarrow> process" where
  "print_stderr s p = p\<lparr>stderr := stderr p @ s @ [10]\<rparr>"

definition call :: "runtime_call \<Rightarrow> process \<Rightarrow> process" where
  "call c p = p\<lparr>calls := calls p @ [c]\<rparr>"

section \<open>transcribe_audio\<close>

text \<open>How a call of \<open>transcribe_audio\<close> ends.\<close>

datatype outcome =
    Return pystr
  | SysExit int
  | Raise py_exception

text \<open>
  The loop
  \<^verbatim>\<open>
  for segment in segments:
      transcript_parts.append(segment.text.strip())
  \<close>
\<close>

fun for_segments :: "segment_stream \<Rightarrow> pystr list \<Rightarrow> py_exception + pystr list" where
  "for_segments Stream_end transcript_parts = Inr transcript_parts"
| "for_segments (Stream_raise e) transcript_parts = Inl e"
| "for_segments (Stream_yield seg segments) transcript_parts =
     for_segments segments (transcript_parts @ [strip (seg_text seg)])"

text \<open>
  The arguments the script passes to the constructor and to \<open>model.transcribe\<close>, as
  they are written in \<open>try_block\<close> below.
\<close>

abbreviation script_model_args :: "pystr \<Rightarrow> model_args" where
  "script_model_args model_size \<equiv>
     \<lparr>model_size_or_path = model_size, device = ascii ''cpu'', compute_type = ascii ''int8''\<rparr>"

abbreviation script_transcribe_args :: "pystr \<Rightarrow> pystr \<Rightarrow> transcribe_args" where
  "script_transcribe_args audio_path lang \<equiv>
     \<lparr>audio = audio_path, language = lang, beam_size = 1, best_of = 1, vad_filter = True,
      vad_parameters = [(ascii ''min_silence_duration_ms'', 500)]\<rparr>"

text \<open>The body of the \<open>try\<close> block: an exception leaves it at the statement that raises.\<close>

definition try_block ::
  "runtime \<Rightarrow> pystr \<Rightarrow> pystr \<Rightarrow> pystr \<Rightarrow> process \<Rightarrow> (py_exception + pystr) \<times> process" where
  "try_block rt audio_path model_size lang p =
     (let p1 = call Call_import p in
      (case import_WhisperModel rt of
         Some e \<Rightarrow> (Inl e, p1)
       | None \<Rightarrow>
          (let margs = \<lparr>model_size_or_path = model_size, device = ascii ''cpu'',
                        compute_type = ascii ''int8''\<rparr>;
               p2 = call (Call_WhisperModel margs) p1 in
           (case WhisperModel rt margs of
              Some e \<Rightarrow> (Inl e, p2)
            | None \<Rightarrow>
               (let targs = \<lparr>audio = audio_path, language = lang, beam_size = 1, best_of = 1,
                             vad_filter = True,
                             vad_parameters = [(ascii ''min_silence_duration_ms'', 500)]\<rparr>;
                    p3 = call (Call_transcribe targs) p2 in
                (case transcribe rt margs targs of
                   Inl e \<Rightarrow> (Inl e, p3)
                 | Inr segments \<Rightarrow>
                    (case for_segments segments [] of
                       Inl e \<Rightarrow> (Inl e, p3)
                     | Inr transcript_parts \<Rightarrow>
                         (Inr (strip (join (ascii '' '') transcript_parts)), p3))))))))"

definition transcribe_audio ::
  "runtime \<Rightarrow> pystr \<Rightarrow> pystr \<Rightarrow> pystr \<Rightarrow> process \<Rightarrow> outcome \<times> process" where
  "transcribe_audio rt audio_path model_size lang p =
     (case try_block rt audio_path model_size lang p of
        (Inr transcript, p') \<Rightarrow> (Return transcript, p')
      | (Inl (ImportError d), p') \<Rightarrow>
          (SysExit 1,
           print_stderr
             (ascii ''Error: faster_whisper not installed. Install with: pip install faster-whisper'')
             p')
      | (Inl (Exception d), p') \<Rightarrow>
          (SysExit 1, print_stderr (ascii ''Error transcribing audio: '' @ d) p')
      | (Inl (BaseException d), p') \<Rightarrow> (Raise (BaseException d), p'))"

section \<open>The command line\<close>

text \<open>How the process ends: with an exit status, or with an exception nobody caught.\<close>

datatype exit = Exit int | Uncaught py_exception

text \<open>
  The \<open>__main__\<close> block. \<open>argv\<close> is \<open>sys.argv\<close>, the program name first;
  \<open>os_path_exists\<close> is the file system as \<open>os.path.exists\<close> sees it.
\<close>

definition main ::
  "runtime \<Rightarrow> (pystr \<Rightarrow> bool) \<Rightarrow> pystr list \<Rightarrow> process \<Rightarrow> exit \<times> process" where
  "main rt os_path_exists argv p =
     (if length argv < 2 then
        (Exit 1,
         print_stderr (ascii ''  language: en, es, fr, etc. (default: en)'')
           (print_stderr (ascii ''  model_size: tiny, base, small, medium, large-v2 (default: base)'')
              (print_stderr
                 (ascii ''Usage: python3 faster_whisper_transcribe.py <audio_file> [model_size] [language]'')
                 p)))
      else
        let audio_file = argv ! 1;
            model_size = (if length argv > 2 then argv ! 2 else ascii ''base'');
            lang = (if length argv > 3 then argv ! 3 else ascii ''en'')
        in
          if \<not> os_path_exists audio_file then
            (Exit 1, print_stderr (ascii ''Error: Audio file not found: '' @ audio_file) p)
          else
            (case transcribe_audio rt audio_file model_size lang p of
               (Return transcript, p') \<Rightarrow> (Exit 0, print_stdout transcript p')
             | (SysExit n, p') \<Rightarrow> (Exit n, p')
             | (Raise e, p') \<Rightarrow> (Uncaught e, p')))"

section \<open>Runtimes used as examples\<close>

text \<open>The generator that yields the given segments and is then exhausted.\<close>

fun stream_of :: "segment list \<Rightarrow> segment_stream" where
  "stream_of [] = Stream_end"
| "stream_of (seg # segs) = Stream_yield seg (stream_of segs)"

definition segments_of :: "pystr list \<Rightarrow> segment list" where
  "segments_of ts = map (\<lambda>t. \<lparr>seg_text = t\<rparr>) ts"

text \<open>A runtime that imports, constructs any session and yields the given texts.\<close>

definition stub_runtime :: "pystr list \<Rightarrow> runtime" where
  "stub_runtime ts =
     \<lparr>import_WhisperModel = None, WhisperModel = (\<lambda>m. None),
      transcribe = (\<lambda>m t. Inr (stream_of (segments_of ts)))\<rparr>"

text \<open>
  The runtime imports, the session is constructed, and the inference call the script makes
  returns a generator that yields exactly \<open>segs\<close>.
\<close>

definition runtime_yields :: "runtime \<Rightarrow> pystr \<Rightarrow> pystr \<Rightarrow> pystr \<Rightarrow> segment list \<Rightarrow> bool" where
  "runtime_yields rt audio_path model_size lang segs =
     (import_WhisperModel rt = None \<and>
      WhisperModel rt (script_model_args model_size) = None \<and>
      transcribe rt (script_model_args model_size) (script_transcribe_args audio_path lang)
        = Inr (stream_of segs))"


text \<open>A runtime that is not installed: the import raises \<open>ImportError\<close>.\<close>

definition missing_runtime :: runtime where
  "missing_runtime =
     \<lparr>import_WhisperModel = Some (ImportError (ascii ''No module named faster_whisper'')),
      WhisperModel = (\<lambda>m. None), transcribe = (\<lambda>m t. Inr Stream_end)\<rparr>"

text \<open>A runtime whose constructor rejects every model size.\<close>

definition failing_runtime :: "pystr \<Rightarrow> runtime" where
  "failing_runtime d =
     \<lparr>import_WhisperModel = None, WhisperModel = (\<lambda>m. Some (Exception d)),
      transcribe = (\<lambda>m t. Inr Stream_end)\<rparr>"



text \<open>Two file systems: one where every path exists, one where none does.\<close>

definition every_path_exists :: "pystr \<Rightarrow> bool" where
  "every_path_exists path = True"

definition no_path_exists :: "pystr \<Rightarrow> bool" where
  "no_path_exists path = False"

text \<open>The messages the script prints.\<close>

abbreviation not_installed_message :: pystr where
  "not_installed_message \<equiv>
     ascii ''Error: faster_whisper not installed. Install with: pip install faster-whisper''"

abbreviation usage_message :: pystr where
  "usage_message \<equiv>
     ascii ''Usage: python3 faster_whisper_transcribe.py <audio_file> [model_size] [language]''
       @ [10] @
     ascii ''  model_size: tiny, base, small, medium, large-v2 (default: base)'' @ [10] @
     ascii ''  language: en, es, fr, etc. (default: en)'' @ [10]"

section \<open>Properties of strings\<close>

lemma lstrip_head: "lstrip s \<noteq> [] \<Longrightarrow> \<not> isspace (hd (lstrip s))"
  unfolding lstrip_def by (rule hd_dropWhile)

lemma rstrip_last: "rstrip s \<noteq> [] \<Longrightarrow> \<not> isspace (last (rstrip s))"
  unfolding rstrip_def using hd_dropWhile [of isspace "rev s"] by (simp add: last_rev)

lemma rstrip_keeps_head: "\<not> isspace c \<Longrightarrow> rstrip (c # s) = c # rstrip s"
  unfolding rstrip_def by (simp add: dropWhile_append)

lemma no_outer_whitespace_strip: "no_outer_whitespace (strip s)"
proof (cases "lstrip s")
  case Nil
  then show ?thesis by (simp add: strip_def rstrip_def no_outer_whitespace_def)
next
  case (Cons c t)
  then have c: "\<not> isspace c" using lstrip_head [of s] by simp
  have eq: "strip s = c # rstrip t" by (simp add: strip_def Cons rstrip_keeps_head c)
  have "\<not> isspace (last (strip s))" using rstrip_last [of "lstrip s"] eq by (simp add: strip_def)
  then show ?thesis by (simp add: no_outer_whitespace_def eq c)
qed

lemma strip_id: "no_outer_whitespace s \<Longrightarrow> strip s = s"
proof (cases s)
  case Nil
  then show ?thesis by (simp add: strip_def lstrip_def rstrip_def)
next
  case (Cons c t)
  assume "no_outer_whitespace s"
  then have c: "\<not> isspace c" and l: "\<not> isspace (last s)" by (simp_all add: no_outer_whitespace_def Cons)
  have "lstrip s = s" by (simp add: lstrip_def Cons c)
  moreover have "rstrip s = s"
  proof -
    have "rev s \<noteq> []" by (simp add: Cons)
    then have "\<not> isspace (hd (rev s))" using l by (simp add: hd_rev)
    then have "dropWhile isspace (rev s) = rev s" using \<open>rev s \<noteq> []\<close> by (cases "rev s") simp_all
    then show ?thesis by (simp add: rstrip_def)
  qed
  ultimately show ?thesis by (simp add: strip_def)
qed

lemma strip_all_space:
  assumes "\<forall>c \<in> set s. isspace c"
  shows "strip s = []"
proof -
  have "lstrip s = []" using assms by (simp add: lstrip_def)
  then show ?thesis by (simp add: strip_def rstrip_def)
qed

lemma contains_iff: "contains s sub \<longleftrightarrow> (\<exists>l r. s = l @ sub @ r)"
proof (induction s)
  case Nil
  then show ?case by simp
next
  case (Cons c s)
  show ?case
  proof
    assume "contains (c # s) sub"
    then consider "prefix sub (c # s)" | "contains s sub" by auto
    then show "\<exists>l r. c # s = l @ sub @ r"
    proof cases
      case 1
      then obtain r where "c # s = sub @ r" by (auto simp: prefix_def)
      then have "c # s = [] @ sub @ r" by simp
      then show ?thesis by blast
    next
      case 2
      then obtain l r where "s = l @ sub @ r" using Cons.IH by blast
      then have "c # s = (c # l) @ sub @ r" by simp
      then show ?thesis by blast
    qed
  next
    assume "\<exists>l r. c # s = l @ sub @ r"
    then obtain l r where eq: "c # s = l @ sub @ r" by blast
    show "contains (c # s) sub"
    proof (cases l)
      case Nil
      then have "prefix sub (c # s)" using eq by (simp add: prefix_def)
      then show ?thesis by simp
    next
      case (Cons a l')
      then have "s = l' @ sub @ r" using eq by simp
      then have "contains s sub" using Cons.IH by blast
      then show ?thesis by simp
    qed
  qed
qed

lemma contains_middle: "contains (l @ sub @ r) sub"
  unfolding contains_iff by blast

lemma join_append:
  "xs \<noteq> [] \<Longrightarrow> ys \<noteq> [] \<Longrightarrow> join sep (xs @ ys) = join sep xs @ sep @ join sep ys"
proof (induction sep xs rule: join.induct)
  case (1 sep)
  then show ?case by simp
next
  case (2 sep x)
  then show ?case by (cases ys) simp_all
next
  case (3 sep x y zs)
  then show ?case by simp
qed

lemma join_infix:
  assumes "mid \<noteq> []"
  shows "\<exists>l r. join sep (pre @ mid @ post) = l @ join sep mid @ r"
proof -
  have post: "\<exists>r. join sep (mid @ post) = join sep mid @ r"
  proof (cases post)
    case Nil
    then show ?thesis by simp
  next
    case (Cons a list)
    then show ?thesis using assms by (simp add: join_append)
  qed
  then obtain r where r: "join sep (mid @ post) = join sep mid @ r" by blast
  show ?thesis
  proof (cases pre)
    case Nil
    then have "join sep (pre @ mid @ post) = [] @ join sep mid @ r" using r by simp
    then show ?thesis by blast
  next
    case (Cons a list)
    then have "pre \<noteq> []" and "mid @ post \<noteq> []" using assms by simp_all
    then have "join sep (pre @ mid @ post) = join sep pre @ sep @ join sep (mid @ post)"
      by (rule join_append)
    then have "join sep (pre @ mid @ post) = (join sep pre @ sep) @ join sep mid @ r"
      using r by simp
    then show ?thesis by blast
  qed
qed

lemma lstrip_keeps_infix:
  assumes "m \<noteq> []" "\<not> isspace (hd m)"
  shows "\<exists>l'. lstrip (l @ m @ r) = l' @ m @ r"
proof -
  obtain c m' where m: "m = c # m'" using assms(1) by (cases m) auto
  then have "dropWhile isspace (m @ r) = m @ r" using assms(2) by simp
  then have "lstrip (l @ m @ r) = (if \<forall>x \<in> set l. isspace x then [] else dropWhile isspace l) @ m @ r"
    by (simp add: lstrip_def dropWhile_append)
  then show ?thesis by blast
qed

lemma rstrip_keeps_infix:
  assumes "m \<noteq> []" "\<not> isspace (last m)"
  shows "\<exists>r'. rstrip (l @ m @ r) = l @ m @ r'"
proof -
  have "rev m \<noteq> []" using assms(1) by simp
  moreover have "\<not> isspace (hd (rev m))" using assms by (simp add: hd_rev)
  ultimately have "dropWhile isspace (rev m @ rev l) = rev m @ rev l"
    by (cases "rev m") simp_all
  then have "dropWhile isspace (rev (l @ m @ r)) =
      (if \<forall>x \<in> set r. isspace x then [] else dropWhile isspace (rev r)) @ rev m @ rev l"
    by (simp add: dropWhile_append)
  then have "rstrip (l @ m @ r) =
      l @ m @ rev (if \<forall>x \<in> set r. isspace x then [] else dropWhile isspace (rev r))"
    by (simp add: rstrip_def)
  then show ?thesis by blast
qed

lemma strip_keeps_infix:
  assumes "m \<noteq> []" "no_outer_whitespace m"
  shows "\<exists>l' r'. strip (l @ m @ r) = l' @ m @ r'"
proof -
  have h: "\<not> isspace (hd m)" and t: "\<not> isspace (last m)"
    using assms by (cases m; simp add: no_outer_whitespace_def)+
  obtain l' where "lstrip (l @ m @ r) = l' @ m @ r"
    using lstrip_keeps_infix [OF assms(1) h] by blast
  moreover obtain r' where "rstrip (l' @ m @ r) = l' @ m @ r'"
    using rstrip_keeps_infix [OF assms(1) t] by blast
  ultimately have "strip (l @ m @ r) = l' @ m @ r'" by (simp add: strip_def)
  then show ?thesis by blast
qed

lemma no_outer_whitespace_sandwich:
  assumes "a \<noteq> []" "b \<noteq> []" "no_outer_whitespace a" "no_outer_whitespace b"
  shows "no_outer_whitespace (a @ mid @ b)"
proof -
  obtain c a' where a: "a = c # a'" using assms(1) by (cases a) auto
  have "\<not> isspace c" using assms(3) by (simp add: no_outer_whitespace_def a)
  moreover have "\<not> isspace (last b)" using assms(2,4) by (cases b) (simp_all add: no_outer_whitespace_def)
  ultimately show ?thesis using assms(2) by (simp add: no_outer_whitespace_def a)
qed

lemma no_outer_whitespace_join:
  assumes "\<forall>t \<in> set ts. t \<noteq> [] \<and> no_outer_whitespace t"
  shows "no_outer_whitespace (join sep ts)"
  using assms
proof (induction sep ts rule: join.induct)
  case (1 sep)
  then show ?case by (simp add: no_outer_whitespace_def)
next
  case (2 sep x)
  then show ?case by simp
next
  case (3 sep x y ys)
  have "join sep (y # ys) \<noteq> []" using 3(2) by (cases ys) simp_all
  moreover have "no_outer_whitespace (join sep (y # ys))" using 3 by simp
  ultimately show ?case using 3(2) by (simp add: no_outer_whitespace_sandwich)
qed

section \<open>The success path\<close>

lemma for_segments_stream_of:
  "for_segments (stream_of segs) parts = Inr (parts @ map (\<lambda>seg. strip (seg_text seg)) segs)"
  by (induction segs arbitrary: parts) simp_all

lemma try_block_yields:
  assumes "runtime_yields rt audio_path model_size lang segs"
  shows "try_block rt audio_path model_size lang p =
           (Inr (strip (join (ascii '' '') (map (\<lambda>seg. strip (seg_text seg)) segs))),
            call (Call_transcribe (script_transcribe_args audio_path lang))
              (call (Call_WhisperModel (script_model_args model_size)) (call Call_import p)))"
  using assms by (simp add: runtime_yields_def try_block_def Let_def for_segments_stream_of)

lemma transcribe_audio_yields:
  assumes "runtime_yields rt audio_path model_size lang segs"
  shows "transcribe_audio rt audio_path model_size lang p =
           (Return (strip (join (ascii '' '') (map (\<lambda>seg. strip (seg_text seg)) segs))),
            call (Call_transcribe (script_transcribe_args audio_path lang))
              (call (Call_WhisperModel (script_model_args model_size)) (call Call_import p)))"
  by (simp add: transcribe_audio_def try_block_yields [OF assms])

lemma stub_runtime_yields:
  "runtime_yields (stub_runtime ts) audio_path model_size lang (segments_of ts)"
  by (simp add: runtime_yields_def stub_runtime_def)

section \<open>Streams and calls on every path\<close>


lemma try_block_calls:
  "prefix (calls (snd (try_block rt audio_path model_size lang p)))
     (calls p @ [Call_import, Call_WhisperModel (script_model_args model_size),
                 Call_transcribe (script_transcribe_args audio_path lang)]) \<and>
   calls (snd (try_block rt audio_path model_size lang p)) \<noteq> calls p"
  by (simp add: try_block_def Let_def call_def split: option.splits sum.splits)

lemma try_block_import_raises:
  "import_WhisperModel rt = Some e \<Longrightarrow>
     try_block rt audio_path model_size lang p = (Inl e, call Call_import p)"
  by (simp add: try_block_def Let_def)


lemma transcribe_audio_calls:
  "calls (snd (transcribe_audio rt audio_path model_size lang p)) =
     calls (snd (try_block rt audio_path model_size lang p))"
  by (cases "try_block rt audio_path model_size lang p")
     (simp add: transcribe_audio_def print_stderr_def split: sum.splits py_exception.splits)


lemma not_installed_message_instructs:
  "contains not_installed_message (ascii ''Install with: pip install faster-whisper'')"
  by (simp add: ascii_def)

section \<open>Claims\<close>

text \<open>
  C1. When the runtime yields a finite sequence of segments, \<open>transcribe_audio\<close> returns
  the texts of the segments, each stripped of leading and trailing whitespace, joined in
  their order by one space, the joined string stripped once more. The example of the
  specification follows: the texts \<open>Hello\<close> and \<open> world \<close> give
  \<open>Hello world\<close>.
\<close>

theorem transcribe_audio_joins_stripped_texts:
  assumes "runtime_yields rt audio_path model_size lang segs"
  shows "fst (transcribe_audio rt audio_path model_size lang p) =
           Return (strip (join (ascii '' '') (map (\<lambda>seg. strip (seg_text seg)) segs)))"
  by (simp add: transcribe_audio_yields [OF assms])

theorem transcribe_audio_joins_stripped_texts_witness:
  "runtime_yields (stub_runtime [ascii ''Hello'', ascii '' world '']) (ascii ''a.wav'')
     (ascii ''base'') (ascii ''en'') (segments_of [ascii ''Hello'', ascii '' world '']) \<and>
   fst (transcribe_audio (stub_runtime [ascii ''Hello'', ascii '' world '']) (ascii ''a.wav'')
     (ascii ''base'') (ascii ''en'') start) = Return (ascii ''Hello world'')"
proof -
  have h: "runtime_yields (stub_runtime [ascii ''Hello'', ascii '' world '']) (ascii ''a.wav'')
     (ascii ''base'') (ascii ''en'') (segments_of [ascii ''Hello'', ascii '' world ''])"
    by (rule stub_runtime_yields)
  show ?thesis using h transcribe_audio_joins_stripped_texts [OF h, of start]
    by (simp add: segments_of_def ascii_def strip_def lstrip_def rstrip_def isspace_def)
qed

text \<open>
  C2. When the runtime yields no segment, \<open>transcribe_audio\<close> returns normally and its
  result is the empty string; it writes nothing to either stream.
\<close>

theorem transcribe_audio_no_segments_returns_empty:
  assumes "runtime_yields rt audio_path model_size lang []"
  shows "fst (transcribe_audio rt audio_path model_size lang p) = Return [] \<and>
         stdout (snd (transcribe_audio rt audio_path model_size lang p)) = stdout p \<and>
         stderr (snd (transcribe_audio rt audio_path model_size lang p)) = stderr p"
  by (simp add: transcribe_audio_yields [OF assms] call_def strip_def lstrip_def rstrip_def)

theorem transcribe_audio_no_segments_returns_empty_witness:
  "runtime_yields (stub_runtime []) (ascii ''a.wav'') (ascii ''base'') (ascii ''en'') [] \<and>
   fst (transcribe_audio (stub_runtime []) (ascii ''a.wav'') (ascii ''base'') (ascii ''en'') start)
     = Return (ascii '''') \<and>
   stderr (snd (transcribe_audio (stub_runtime []) (ascii ''a.wav'') (ascii ''base'') (ascii ''en'')
     start)) = []"
proof -
  have h: "runtime_yields (stub_runtime []) (ascii ''a.wav'') (ascii ''base'') (ascii ''en'') []"
    using stub_runtime_yields [of "[]"] by (simp add: segments_of_def)
  show ?thesis using h transcribe_audio_no_segments_returns_empty [OF h, of start] by (simp add: ascii_def start_def)
qed

text \<open>
  C3. Whatever segments the runtime yields, \<open>transcribe_audio\<close> returns a string, and
  every string it returns, for any runtime and any parameters, has no leading and no
  trailing whitespace.
\<close>

theorem transcribe_audio_result_has_no_outer_whitespace:
  "(runtime_yields rt audio_path model_size lang segs \<longrightarrow>
      (\<exists>s. fst (transcribe_audio rt audio_path model_size lang p) = Return s)) \<and>
   (\<forall>s. fst (transcribe_audio rt audio_path model_size lang p) = Return s \<longrightarrow>
      no_outer_whitespace s)"
proof (intro conjI impI allI)
  assume "runtime_yields rt audio_path model_size lang segs"
  then show "\<exists>s. fst (transcribe_audio rt audio_path model_size lang p) = Return s"
    by (simp add: transcribe_audio_yields)
next
  fix s
  assume "fst (transcribe_audio rt audio_path model_size lang p) = Return s"
  then obtain parts where "s = strip (join (ascii '' '') parts)"
    by (auto simp: transcribe_audio_def try_block_def Let_def
          split: option.splits sum.splits py_exception.splits)
  then show "no_outer_whitespace s" by (simp add: no_outer_whitespace_strip)
qed

theorem transcribe_audio_result_has_no_outer_whitespace_witness:
  "runtime_yields (stub_runtime [ascii ''  Testing '', ascii ''one two  ''])
     (ascii ''sample.wav'') (ascii ''base'') (ascii ''en'')
     (segments_of [ascii ''  Testing '', ascii ''one two  '']) \<and>
   fst (transcribe_audio (stub_runtime [ascii ''  Testing '', ascii ''one two  ''])
     (ascii ''sample.wav'') (ascii ''base'') (ascii ''en'') start)
     = Return (ascii ''Testing one two'') \<and>
   no_outer_whitespace (ascii ''Testing one two'')"
proof -
  let ?rt = "stub_runtime [ascii ''  Testing '', ascii ''one two  '']"
  have h: "runtime_yields ?rt (ascii ''sample.wav'') (ascii ''base'') (ascii ''en'')
     (segments_of [ascii ''  Testing '', ascii ''one two  ''])"
    by (rule stub_runtime_yields)
  have r: "fst (transcribe_audio ?rt (ascii ''sample.wav'') (ascii ''base'') (ascii ''en'') start)
     = Return (ascii ''Testing one two'')"
    using transcribe_audio_yields [OF h, of start]
    by (simp add: segments_of_def ascii_def strip_def lstrip_def rstrip_def isspace_def)
  from transcribe_audio_result_has_no_outer_whitespace [of ?rt "ascii ''sample.wav''" "ascii ''base''" "ascii ''en''" _ start] r
  have "no_outer_whitespace (ascii ''Testing one two'')" by blast
  with h r show ?thesis by blast
qed

text \<open>
  C9. A segment whose text is all whitespace is stripped to the empty string and still
  takes part in the join: where it stands between two segments whose stripped texts are
  not empty, the transcript contains the first stripped text, two spaces and the second
  stripped text. Texts that are not empty and have no whitespace at their ends reach
  the transcript unmodified, whatever whitespace (newlines included) they have inside.
\<close>

theorem whitespace_segment_keeps_separator:
  "(runtime_yields rt audio_path model_size lang (pre @ [x, w, y] @ post) \<and>
    strip (seg_text x) \<noteq> [] \<and> strip (seg_text y) \<noteq> [] \<and> (\<forall>c \<in> set (seg_text w). isspace c) \<longrightarrow>
      (\<exists>t. fst (transcribe_audio rt audio_path model_size lang p) = Return t \<and>
           contains t (strip (seg_text x) @ ascii ''  '' @ strip (seg_text y)))) \<and>
   (runtime_yields rt audio_path model_size lang (segments_of ts) \<and>
    (\<forall>t \<in> set ts. t \<noteq> [] \<and> no_outer_whitespace t) \<longrightarrow>
      fst (transcribe_audio rt audio_path model_size lang p) = Return (join (ascii '' '') ts))"
proof (intro conjI impI)
  assume a: "runtime_yields rt audio_path model_size lang (pre @ [x, w, y] @ post) \<and>
    strip (seg_text x) \<noteq> [] \<and> strip (seg_text y) \<noteq> [] \<and> (\<forall>c \<in> set (seg_text w). isspace c)"
  let ?f = "\<lambda>seg. strip (seg_text seg)"
  let ?m = "?f x @ ascii ''  '' @ ?f y"
  have w: "?f w = []" using a by (simp add: strip_all_space)
  have mid: "join (ascii '' '') [?f x, ?f w, ?f y] = ?m" by (simp add: w ascii_def)
  have e: "map ?f (pre @ [x, w, y] @ post) = map ?f pre @ [?f x, ?f w, ?f y] @ map ?f post"
    by simp
  have "\<exists>l r. join (ascii '' '') (map ?f pre @ [?f x, ?f w, ?f y] @ map ?f post) =
      l @ join (ascii '' '') [?f x, ?f w, ?f y] @ r"
    by (rule join_infix) simp
  then obtain l r where "join (ascii '' '') (map ?f pre @ [?f x, ?f w, ?f y] @ map ?f post) =
      l @ join (ascii '' '') [?f x, ?f w, ?f y] @ r"
    by blast
  then have j: "join (ascii '' '') (map ?f (pre @ [x, w, y] @ post)) = l @ ?m @ r"
    by (simp only: e mid)
  have "?m \<noteq> []" using a by simp
  moreover have "no_outer_whitespace ?m"
    using a by (simp add: no_outer_whitespace_sandwich no_outer_whitespace_strip)
  ultimately obtain l' r' where "strip (l @ ?m @ r) = l' @ ?m @ r'"
    using strip_keeps_infix by blast
  then have "strip (join (ascii '' '') (map ?f (pre @ [x, w, y] @ post))) = l' @ ?m @ r'"
    by (simp only: j)
  then have "contains (strip (join (ascii '' '') (map ?f (pre @ [x, w, y] @ post)))) ?m"
    by (simp only: contains_middle)
  moreover from a have ry: "runtime_yields rt audio_path model_size lang (pre @ [x, w, y] @ post)"
    by blast
  have "fst (transcribe_audio rt audio_path model_size lang p) =
      Return (strip (join (ascii '' '') (map ?f (pre @ [x, w, y] @ post))))"
    by (simp only: transcribe_audio_yields [OF ry] fst_conv)
  ultimately show "\<exists>t. fst (transcribe_audio rt audio_path model_size lang p) = Return t \<and>
           contains t ?m" by simp
next
  assume a: "runtime_yields rt audio_path model_size lang (segments_of ts) \<and>
    (\<forall>t \<in> set ts. t \<noteq> [] \<and> no_outer_whitespace t)"
  then have m: "map (\<lambda>seg. strip (seg_text seg)) (segments_of ts) = ts"
    by (simp add: segments_of_def comp_def strip_id map_idI)
  have s: "strip (join (ascii '' '') ts) = join (ascii '' '') ts"
    using a by (simp add: strip_id no_outer_whitespace_join)
  from a have ry: "runtime_yields rt audio_path model_size lang (segments_of ts)"
    by blast
  show "fst (transcribe_audio rt audio_path model_size lang p) = Return (join (ascii '' '') ts)"
    by (simp only: transcribe_audio_yields [OF ry] fst_conv m s)
qed

theorem whitespace_segment_keeps_separator_witness:
  "runtime_yields (stub_runtime [ascii ''a'', ascii ''   '', ascii ''b'']) (ascii ''a.wav'')
     (ascii ''base'') (ascii ''en'') (segments_of [ascii ''a'', ascii ''   '', ascii ''b'']) \<and>
   fst (transcribe_audio (stub_runtime [ascii ''a'', ascii ''   '', ascii ''b'']) (ascii ''a.wav'')
     (ascii ''base'') (ascii ''en'') start) = Return (ascii ''a  b'') \<and>
   contains (ascii ''a  b'') (ascii ''a'' @ ascii ''  '' @ ascii ''b'') \<and>
   runtime_yields (stub_runtime [[120, 10, 121], ascii ''z'']) (ascii ''a.wav'')
     (ascii ''base'') (ascii ''en'') (segments_of [[120, 10, 121], ascii ''z'']) \<and>
   fst (transcribe_audio (stub_runtime [[120, 10, 121], ascii ''z'']) (ascii ''a.wav'')
     (ascii ''base'') (ascii ''en'') start) = Return [120, 10, 121, 32, 122]"
proof -
  let ?a = "ascii ''a''" and ?w = "ascii ''   ''" and ?b = "ascii ''b''"
  let ?rt = "stub_runtime [?a, ?w, ?b]"
  let ?rt' = "stub_runtime [[120, 10, 121], ascii ''z'']"
  have h: "runtime_yields ?rt (ascii ''a.wav'') (ascii ''base'') (ascii ''en'')
      (segments_of [?a, ?w, ?b])"
    by (rule stub_runtime_yields)
  then have h0: "runtime_yields ?rt (ascii ''a.wav'') (ascii ''base'') (ascii ''en'')
      ([] @ [\<lparr>seg_text = ?a\<rparr>, \<lparr>seg_text = ?w\<rparr>, \<lparr>seg_text = ?b\<rparr>] @ [])"
    by (simp add: segments_of_def)
  have sa: "strip ?a = ?a" and sb: "strip ?b = ?b"
    by (simp_all add: ascii_def strip_def lstrip_def rstrip_def isspace_def)
  have sw: "\<forall>c \<in> set ?w. isspace c" by (simp add: ascii_def isspace_def)
  have r: "fst (transcribe_audio ?rt (ascii ''a.wav'') (ascii ''base'') (ascii ''en'') start)
      = Return (ascii ''a  b'')"
    using transcribe_audio_yields [OF h, of start]
    by (simp add: segments_of_def ascii_def strip_def lstrip_def rstrip_def isspace_def)
  have hyp: "runtime_yields ?rt (ascii ''a.wav'') (ascii ''base'') (ascii ''en'')
      ([] @ [\<lparr>seg_text = ?a\<rparr>, \<lparr>seg_text = ?w\<rparr>, \<lparr>seg_text = ?b\<rparr>] @ []) \<and>
      strip (seg_text \<lparr>seg_text = ?a\<rparr>) \<noteq> [] \<and> strip (seg_text \<lparr>seg_text = ?b\<rparr>) \<noteq> [] \<and>
      (\<forall>c \<in> set (seg_text \<lparr>seg_text = ?w\<rparr>). isspace c)"
    using h0 sw by (simp add: sa sb) (simp add: ascii_def)
  have "\<exists>t. fst (transcribe_audio ?rt (ascii ''a.wav'') (ascii ''base'') (ascii ''en'') start)
      = Return t \<and> contains t (strip (seg_text \<lparr>seg_text = ?a\<rparr>) @ ascii ''  '' @
          strip (seg_text \<lparr>seg_text = ?b\<rparr>))"
    using whitespace_segment_keeps_separator [of ?rt "ascii ''a.wav''" "ascii ''base''" "ascii ''en''" "[]"
       "\<lparr>seg_text = ?a\<rparr>" "\<lparr>seg_text = ?w\<rparr>" "\<lparr>seg_text = ?b\<rparr>" "[]" start] hyp
    by blast
  then have "\<exists>t. fst (transcribe_audio ?rt (ascii ''a.wav'') (ascii ''base'') (ascii ''en'') start)
      = Return t \<and> contains t (?a @ ascii ''  '' @ ?b)"
    by (simp add: sa sb)
  then have c: "contains (ascii ''a  b'') (?a @ ascii ''  '' @ ?b)" using r by simp
  have h': "runtime_yields ?rt' (ascii ''a.wav'') (ascii ''base'') (ascii ''en'')
      (segments_of [[120, 10, 121], ascii ''z''])"
    by (rule stub_runtime_yields)
  have "\<forall>t \<in> set [[120, 10, 121], ascii ''z'']. t \<noteq> [] \<and> no_outer_whitespace t"
    by (simp add: no_outer_whitespace_def isspace_def ascii_def)
  then have "fst (transcribe_audio ?rt' (ascii ''a.wav'') (ascii ''base'') (ascii ''en'') start)
      = Return (join (ascii '' '') [[120, 10, 121], ascii ''z''])"
    using whitespace_segment_keeps_separator [where rt = ?rt' and audio_path = "ascii ''a.wav''" and model_size = "ascii ''base''"
       and lang = "ascii ''en''" and ts = "[[120, 10, 121], ascii ''z'']" and p = start] h'
    by blast
  then have r': "fst (transcribe_audio ?rt' (ascii ''a.wav'') (ascii ''base'') (ascii ''en'') start)
      = Return [120, 10, 121, 32, 122]"
    by (simp add: ascii_def)
  from h r c h' r' show ?thesis by blast
qed

text \<open>
  C4. When the import of the inference library raises \<open>ImportError\<close>,
  \<open>transcribe_audio\<close> prints the fixed message, which contains the instruction
  \<open>Install with: pip install faster-whisper\<close>, to standard error and exits with
  status 1; a process that reached the call (an audio file argument that exists) ends with
  status 1, that one line on standard error and nothing written to standard output.
\<close>

theorem missing_library_reports_install_instruction:
  assumes "import_WhisperModel rt = Some (ImportError d)"
  shows "transcribe_audio rt audio_path model_size lang p =
           (SysExit 1, print_stderr not_installed_message (call Call_import p)) \<and>
         (2 \<le> length argv \<and> os_path_exists (argv ! 1) \<longrightarrow>
            fst (main rt os_path_exists argv p) = Exit 1 \<and>
            stdout (snd (main rt os_path_exists argv p)) = stdout p \<and>
            stderr (snd (main rt os_path_exists argv p)) =
              stderr p @ not_installed_message @ [10]) \<and>
         contains not_installed_message (ascii ''Install with: pip install faster-whisper'')"
proof -
  have t: "\<And>a m l. transcribe_audio rt a m l p =
      (SysExit 1, print_stderr not_installed_message (call Call_import p))"
    by (simp add: transcribe_audio_def try_block_import_raises [OF assms])
  have "2 \<le> length argv \<and> os_path_exists (argv ! 1) \<longrightarrow>
            fst (main rt os_path_exists argv p) = Exit 1 \<and>
            stdout (snd (main rt os_path_exists argv p)) = stdout p \<and>
            stderr (snd (main rt os_path_exists argv p)) =
              stderr p @ not_installed_message @ [10]"
    by (simp add: main_def Let_def t print_stderr_def call_def)
  with t not_installed_message_instructs show ?thesis by blast
qed

theorem missing_library_reports_install_instruction_witness:
  "import_WhisperModel missing_runtime = Some (ImportError (ascii ''No module named faster_whisper'')) \<and>
   fst (main missing_runtime every_path_exists [ascii ''transcribe.py'', ascii ''a.wav''] start)
     = Exit 1 \<and>
   stdout (snd (main missing_runtime every_path_exists [ascii ''transcribe.py'', ascii ''a.wav'']
     start)) = [] \<and>
   stderr (snd (main missing_runtime every_path_exists [ascii ''transcribe.py'', ascii ''a.wav'']
     start)) = not_installed_message @ [10]"
proof -
  have h: "import_WhisperModel missing_runtime =
      Some (ImportError (ascii ''No module named faster_whisper''))"
    by (simp add: missing_runtime_def)
  have a: "2 \<le> length [ascii ''transcribe.py'', ascii ''a.wav''] \<and>
      every_path_exists ([ascii ''transcribe.py'', ascii ''a.wav''] ! 1)"
    by (simp add: every_path_exists_def)
  from missing_library_reports_install_instruction [OF h, where argv = "[ascii ''transcribe.py'', ascii ''a.wav'']"
      and os_path_exists = every_path_exists and p = start] a
  have "fst (main missing_runtime every_path_exists [ascii ''transcribe.py'', ascii ''a.wav''] start)
     = Exit 1 \<and>
   stdout (snd (main missing_runtime every_path_exists [ascii ''transcribe.py'', ascii ''a.wav'']
     start)) = stdout start \<and>
   stderr (snd (main missing_runtime every_path_exists [ascii ''transcribe.py'', ascii ''a.wav'']
     start)) = stderr start @ not_installed_message @ [10]"
    by blast
  with h show ?thesis by (simp add: start_def)
qed



text \<open>
  C6. When the audio file argument is given and \<open>os.path.exists\<close> is false for it, the
  process prints \<open>Error: Audio file not found: \<close> followed by the path to standard
  error and exits with status 1. \<open>transcribe_audio\<close> is not invoked: the process made
  no call into the runtime, and every invocation of \<open>transcribe_audio\<close> makes one.
\<close>

theorem missing_audio_file_reported:
  assumes "2 \<le> length argv" and "\<not> os_path_exists (argv ! 1)"
  shows "main rt os_path_exists argv p =
           (Exit 1, print_stderr (ascii ''Error: Audio file not found: '' @ argv ! 1) p) \<and>
         contains (stderr (snd (main rt os_path_exists argv p))) (argv ! 1) \<and>
         stdout (snd (main rt os_path_exists argv p)) = stdout p \<and>
         calls (snd (main rt os_path_exists argv p)) = calls p \<and>
         calls (snd (transcribe_audio rt audio_path model_size lang p)) \<noteq> calls p"
proof -
  have m: "main rt os_path_exists argv p =
           (Exit 1, print_stderr (ascii ''Error: Audio file not found: '' @ argv ! 1) p)"
    using assms by (simp add: main_def Let_def)
  have "stderr (snd (main rt os_path_exists argv p)) =
      (stderr p @ ascii ''Error: Audio file not found: '') @ argv ! 1 @ [10]"
    by (simp add: m print_stderr_def)
  then have c: "contains (stderr (snd (main rt os_path_exists argv p))) (argv ! 1)"
    by (simp only: contains_middle)
  have "calls (snd (transcribe_audio rt audio_path model_size lang p)) \<noteq> calls p"
    using try_block_calls [of rt audio_path model_size lang p]
    by (simp add: transcribe_audio_calls)
  with m c show ?thesis by (simp add: print_stderr_def)
qed

theorem missing_audio_file_reported_witness:
  "2 \<le> length [ascii ''transcribe.py'', ascii ''gone.wav''] \<and>
   \<not> no_path_exists ([ascii ''transcribe.py'', ascii ''gone.wav''] ! 1) \<and>
   main (stub_runtime [ascii ''Hello'']) no_path_exists
     [ascii ''transcribe.py'', ascii ''gone.wav''] start =
     (Exit 1, \<lparr>stdout = [], stderr = ascii ''Error: Audio file not found: gone.wav'' @ [10],
               calls = []\<rparr>)"
proof -
  have a: "2 \<le> length [ascii ''transcribe.py'', ascii ''gone.wav'']" by simp
  have b: "\<not> no_path_exists ([ascii ''transcribe.py'', ascii ''gone.wav''] ! 1)"
    by (simp add: no_path_exists_def)
  from missing_audio_file_reported [where argv = "[ascii ''transcribe.py'', ascii ''gone.wav'']"
      and os_path_exists = no_path_exists and rt = "stub_runtime [ascii ''Hello'']"
      and p = start, OF a b]
  have "main (stub_runtime [ascii ''Hello'']) no_path_exists
     [ascii ''transcribe.py'', ascii ''gone.wav''] start =
     (Exit 1, print_stderr (ascii ''Error: Audio file not found: '' @
        [ascii ''transcribe.py'', ascii ''gone.wav''] ! 1) start)"
    by blast
  then show ?thesis using a b by (simp add: print_stderr_def start_def ascii_def)
qed

text \<open>
  C7. With fewer than two entries in \<open>sys.argv\<close> (the program name only, or nothing),
  the process prints the three usage lines to standard error and exits with status 1; it
  writes nothing to standard output and makes no call into the runtime.
\<close>

theorem missing_argument_prints_usage:
  assumes "length argv < 2"
  shows "fst (main rt os_path_exists argv p) = Exit 1 \<and>
         stderr (snd (main rt os_path_exists argv p)) = stderr p @ usage_message \<and>
         stdout (snd (main rt os_path_exists argv p)) = stdout p \<and>
         calls (snd (main rt os_path_exists argv p)) = calls p"
  using assms by (simp add: main_def print_stderr_def)

theorem missing_argument_prints_usage_witness:
  "length [ascii ''transcribe.py''] < 2 \<and>
   main (stub_runtime [ascii ''Hello'']) every_path_exists [ascii ''transcribe.py''] start =
     (Exit 1, \<lparr>stdout = [], stderr = usage_message, calls = []\<rparr>)"
proof -
  have a: "length [ascii ''transcribe.py''] < 2" by simp
  have "main (stub_runtime [ascii ''Hello'']) every_path_exists [ascii ''transcribe.py''] start =
      (fst (main (stub_runtime [ascii ''Hello'']) every_path_exists [ascii ''transcribe.py''] start),
       \<lparr>stdout = stdout (snd (main (stub_runtime [ascii ''Hello'']) every_path_exists
            [ascii ''transcribe.py''] start)),
        stderr = stderr (snd (main (stub_runtime [ascii ''Hello'']) every_path_exists
            [ascii ''transcribe.py''] start)),
        calls = calls (snd (main (stub_runtime [ascii ''Hello'']) every_path_exists
            [ascii ''transcribe.py''] start))\<rparr>)"
    by (simp add: prod_eq_iff)
  then show ?thesis
    using a missing_argument_prints_usage [OF a, of "stub_runtime [ascii ''Hello'']" every_path_exists start]
    by (simp add: start_def)
qed

text \<open>
  C8, amended. When the import and the constructor succeed, \<open>transcribe_audio\<close> makes
  exactly one constructor call, with the model size, device \<open>cpu\<close> and compute type
  \<open>int8\<close>, and then exactly one inference call, with the audio path, the language
  parameter, beam size 1, best-of 1, the voice-activity filter on and a minimum silence
  duration of 500 ms. When the import succeeds and the constructor raises, it makes that
  one constructor call and no inference call; when the import raises, it makes neither.
\<close>

theorem runtime_calls_of_transcribe_audio:
  "(import_WhisperModel rt = None \<and> WhisperModel rt (script_model_args model_size) = None \<longrightarrow>
      calls (snd (transcribe_audio rt audio_path model_size lang p)) =
        calls p @ [Call_import, Call_WhisperModel (script_model_args model_size),
                   Call_transcribe (script_transcribe_args audio_path lang)]) \<and>
   (import_WhisperModel rt = None \<and> WhisperModel rt (script_model_args model_size) \<noteq> None \<longrightarrow>
      calls (snd (transcribe_audio rt audio_path model_size lang p)) =
        calls p @ [Call_import, Call_WhisperModel (script_model_args model_size)]) \<and>
   (import_WhisperModel rt \<noteq> None \<longrightarrow>
      calls (snd (transcribe_audio rt audio_path model_size lang p)) = calls p @ [Call_import])"
  by (auto simp: transcribe_audio_calls try_block_def Let_def call_def
        split: option.splits sum.splits)

theorem runtime_calls_of_transcribe_audio_witness:
  "calls (snd (transcribe_audio (stub_runtime [ascii ''Hello'']) (ascii ''a.wav'') (ascii ''small'')
      (ascii ''fr'') start)) =
     [Call_import,
      Call_WhisperModel \<lparr>model_size_or_path = ascii ''small'', device = ascii ''cpu'',
                         compute_type = ascii ''int8''\<rparr>,
      Call_transcribe \<lparr>audio = ascii ''a.wav'', language = ascii ''fr'', beam_size = 1,
                       best_of = 1, vad_filter = True,
                       vad_parameters = [(ascii ''min_silence_duration_ms'', 500)]\<rparr>] \<and>
   calls (snd (transcribe_audio (failing_runtime (ascii ''bad model'')) (ascii ''a.wav'')
      (ascii ''small'') (ascii ''fr'') start)) =
     [Call_import,
      Call_WhisperModel \<lparr>model_size_or_path = ascii ''small'', device = ascii ''cpu'',
                         compute_type = ascii ''int8''\<rparr>] \<and>
   calls (snd (transcribe_audio missing_runtime (ascii ''a.wav'') (ascii ''small'') (ascii ''fr'')
      start)) = [Call_import]"
proof -
  have 1: "import_WhisperModel (stub_runtime [ascii ''Hello'']) = None \<and>
      WhisperModel (stub_runtime [ascii ''Hello'']) (script_model_args (ascii ''small'')) = None"
    by (simp add: stub_runtime_def)
  have 2: "import_WhisperModel (failing_runtime (ascii ''bad model'')) = None \<and>
      WhisperModel (failing_runtime (ascii ''bad model'')) (script_model_args (ascii ''small''))
        \<noteq> None"
    by (simp add: failing_runtime_def)
  have 3: "import_WhisperModel missing_runtime \<noteq> None"
    by (simp add: missing_runtime_def)
  have c: "calls start = []" by (simp add: start_def)
  from 1 runtime_calls_of_transcribe_audio [of "stub_runtime [ascii ''Hello'']" "ascii ''small''" "ascii ''a.wav''"
      "ascii ''fr''" start]
  have a: "calls (snd (transcribe_audio (stub_runtime [ascii ''Hello'']) (ascii ''a.wav'')
      (ascii ''small'') (ascii ''fr'') start)) =
        calls start @ [Call_import, Call_WhisperModel (script_model_args (ascii ''small'')),
                   Call_transcribe (script_transcribe_args (ascii ''a.wav'') (ascii ''fr''))]"
    by blast
  from 2 runtime_calls_of_transcribe_audio [of "failing_runtime (ascii ''bad model'')" "ascii ''small''" "ascii ''a.wav''"
      "ascii ''fr''" start]
  have b: "calls (snd (transcribe_audio (failing_runtime (ascii ''bad model'')) (ascii ''a.wav'')
      (ascii ''small'') (ascii ''fr'') start)) =
        calls start @ [Call_import, Call_WhisperModel (script_model_args (ascii ''small''))]"
    by blast
  from 3 runtime_calls_of_transcribe_audio [of missing_runtime "ascii ''small''" "ascii ''a.wav''" "ascii ''fr''" start]
  have d: "calls (snd (transcribe_audio missing_runtime (ascii ''a.wav'') (ascii ''small'')
      (ascii ''fr'') start)) = calls start @ [Call_import]"
    by blast
  show ?thesis by (simp only: a b d c append_Nil simp_thms)
qed

text \<open>
  Without the condition on the import and the constructor the statement fails: with a
  library that is not installed, no session is constructed and no inference call is made.
\<close>

theorem runtime_calls_of_transcribe_audio_counterexample:
  "filter is_WhisperModel (calls (snd (transcribe_audio missing_runtime (ascii ''a.wav'')
      (ascii ''base'') (ascii ''en'') start))) = [] \<and>
   filter is_transcribe (calls (snd (transcribe_audio missing_runtime (ascii ''a.wav'')
      (ascii ''base'') (ascii ''en'') start))) = []"
  by (simp add: transcribe_audio_calls try_block_def missing_runtime_def Let_def call_def
        start_def)

text \<open>
  C10. Two invocations whose argument lists agree on the first three arguments after the
  program name (which of them are present, and their values), run against the same
  runtime and file system from the same state, end with the same exit status and the same
  output: further arguments, and the program name, have no effect.
\<close>

theorem extra_arguments_ignored:
  assumes "take 3 (tl argv1) = take 3 (tl argv2)"
  shows "main rt os_path_exists argv1 p = main rt os_path_exists argv2 p"
proof -
  have "length (take 3 (tl argv1)) = length (take 3 (tl argv2))" using assms by simp
  then have len: "min (length argv1 - 1) 3 = min (length argv2 - 1) 3" by simp
  have el: "argv1 ! Suc i = argv2 ! Suc i" if "i < 3" "Suc i < length argv1" for i
  proof -
    have l1: "i < length (tl argv1)" using that by simp
    have l2: "i < length (tl argv2)" using that len by simp
    have "argv1 ! Suc i = tl argv1 ! i" using l1 by (simp add: nth_tl)
    also have "\<dots> = take 3 (tl argv1) ! i" using that by simp
    also have "\<dots> = take 3 (tl argv2) ! i" using assms by simp
    also have "\<dots> = tl argv2 ! i" using that by simp
    also have "\<dots> = argv2 ! Suc i" using l2 by (simp add: nth_tl)
    finally show ?thesis .
  qed
  have small: "length argv1 < 2 \<longleftrightarrow> length argv2 < 2" using len by auto
  have two: "length argv1 > 2 \<longleftrightarrow> length argv2 > 2" using len by auto
  have three: "length argv1 > 3 \<longleftrightarrow> length argv2 > 3" using len by auto
  show ?thesis
  proof (cases "length argv1 < 2")
    case True
    then show ?thesis using small by (simp add: main_def)
  next
    case False
    then have e1: "argv1 ! 1 = argv2 ! 1" using el [of 0] by simp
    have e2: "(if length argv1 > 2 then argv1 ! 2 else ascii ''base'') =
        (if length argv2 > 2 then argv2 ! 2 else ascii ''base'')"
      using el [of 1] two by (simp add: numeral_2_eq_2)
    have e3: "(if length argv1 > 3 then argv1 ! 3 else ascii ''en'') =
        (if length argv2 > 3 then argv2 ! 3 else ascii ''en'')"
      using el [of 2] three by (simp add: numeral_3_eq_3)
    from False small have f2: "\<not> length argv2 < 2" by simp
    show ?thesis
      unfolding main_def Let_def
      by (simp only: False f2 if_False e1 e2 e3)
  qed
qed

theorem extra_arguments_ignored_witness:
  "take 3 (tl [ascii ''transcribe.py'', ascii ''a.wav'', ascii ''base'', ascii ''en'',
               ascii ''--verbose'', ascii ''x'']) =
   take 3 (tl [ascii ''transcribe.py'', ascii ''a.wav'', ascii ''base'', ascii ''en'']) \<and>
   main (stub_runtime [ascii ''Hello'']) every_path_exists
     [ascii ''transcribe.py'', ascii ''a.wav'', ascii ''base'', ascii ''en'',
      ascii ''--verbose'', ascii ''x''] start =
   main (stub_runtime [ascii ''Hello'']) every_path_exists
     [ascii ''transcribe.py'', ascii ''a.wav'', ascii ''base'', ascii ''en''] start \<and>
   fst (main (stub_runtime [ascii ''Hello'']) every_path_exists
     [ascii ''transcribe.py'', ascii ''a.wav'', ascii ''base'', ascii ''en'',
      ascii ''--verbose'', ascii ''x''] start) = Exit 0"
proof -
  have h: "take 3 (tl [ascii ''transcribe.py'', ascii ''a.wav'', ascii ''base'', ascii ''en'',
               ascii ''--verbose'', ascii ''x'']) =
   take 3 (tl [ascii ''transcribe.py'', ascii ''a.wav'', ascii ''base'', ascii ''en''])"
    by simp
  have e: "fst (main (stub_runtime [ascii ''Hello'']) every_path_exists
     [ascii ''transcribe.py'', ascii ''a.wav'', ascii ''base'', ascii ''en'',
      ascii ''--verbose'', ascii ''x''] start) = Exit 0"
    using transcribe_audio_yields [OF stub_runtime_yields, of "[ascii ''Hello'']"
        "ascii ''a.wav''" "ascii ''base''" "ascii ''en''" start]
    by (simp add: main_def Let_def every_path_exists_def)
  from h e extra_arguments_ignored [OF h, of "stub_runtime [ascii ''Hello'']" every_path_exists start]
  show ?thesis by blast
qed

end
